theory Spec2Isabelle
  imports Main "HOL-Library.Char_ord" "HOL-Library.List_Lexorder"
begin

section \<open>Data model of index.js\<close>

text \<open>
  One row of the table \<^verbatim>\<open>ssl_records\<close> (index.js, lines 32-42):
  \<^verbatim>\<open>id TEXT PRIMARY KEY, hostname TEXT UNIQUE, status TEXT,
  created_at TEXT DEFAULT CURRENT_TIMESTAMP, updated_at TEXT DEFAULT CURRENT_TIMESTAMP\<close>.
  All five columns are TEXT, so all five fields are strings. A timestamp is the text
  SQLite's CURRENT_TIMESTAMP yields; every statement below receives it as the argument
  \<open>now\<close>.
\<close>

record ssl_record =
  row_id :: string
  row_hostname :: string
  row_status :: string
  created_at :: string
  updated_at :: string

text \<open>The table: its rows, oldest insertion first.\<close>

type_synonym db = "ssl_record list"

text \<open>
  The object Cloudflare returns as \<^verbatim>\<open>data.result\<close> for one custom hostname. The
  handlers read its fields \<^verbatim>\<open>id\<close>, \<^verbatim>\<open>hostname\<close> and \<^verbatim>\<open>status\<close>; a request
  that succeeds is taken to carry such an object, with the three fields present as
  strings.
\<close>

record cf_record =
  cf_id :: string
  cf_hostname :: string
  cf_status :: string

text \<open>
  What a handler can catch: a rejected axios request, with \<^verbatim>\<open>err.response?.data\<close>
  (absent on a transport failure) and \<^verbatim>\<open>err.message\<close>; or the TypeError of
  reading a property of \<^verbatim>\<open>undefined\<close>.
\<close>

datatype js_error = AxiosError "string option" string | TypeError string

text \<open>\<^verbatim>\<open>err.response?.data || err.message\<close>: an empty body is falsy.\<close>

fun error_payload :: "js_error \<Rightarrow> string" where
  "error_payload (AxiosError (Some d) m) = (if d = [] then m else d)"
| "error_payload (AxiosError None m) = m"
| "error_payload (TypeError m) = m"

definition undefined_status_message :: string where
  "undefined_status_message = ''Cannot read properties of undefined (reading 'status')''"

text \<open>The JSON a handler sends: the \<^verbatim>\<open>data\<close> of a success, or a failure envelope.\<close>

datatype payload =
  Remote cf_record
  | Local ssl_record
  | Rows "ssl_record list"
  | DeleteResult string

datatype body =
  Success payload
  | FailMessage string
  | FailError string

datatype response = Response nat body

section \<open>The SQL statements\<close>

text \<open>
  \<^verbatim>\<open>INSERT OR REPLACE INTO ssl_records (id, hostname, status, updated_at)
  VALUES (?, ?, ?, CURRENT_TIMESTAMP)\<close> (lines 74-77). REPLACE deletes every row that
  conflicts with the new one on the primary key \<^verbatim>\<open>id\<close> or on the unique column
  \<^verbatim>\<open>hostname\<close>, then inserts the new row; \<^verbatim>\<open>created_at\<close> is not in the column
  list, so it takes its default, CURRENT_TIMESTAMP.
\<close>

definition insert_or_replace :: "string \<Rightarrow> string \<Rightarrow> string \<Rightarrow> string \<Rightarrow> db \<Rightarrow> db" where
  "insert_or_replace now i h st rows =
     filter (\<lambda>r. row_id r \<noteq> i \<and> row_hostname r \<noteq> h) rows
     @ [\<lparr>row_id = i, row_hostname = h, row_status = st, created_at = now, updated_at = now\<rparr>]"

text \<open>
  \<^verbatim>\<open>UPDATE ssl_records SET status = ?, updated_at = CURRENT_TIMESTAMP WHERE id = ?\<close>
  (lines 87-91 and 150-156).
\<close>

definition update_status_touch :: "string \<Rightarrow> string \<Rightarrow> string \<Rightarrow> db \<Rightarrow> db" where
  "update_status_touch now st i rows =
     map (\<lambda>r. if row_id r = i then r\<lparr>row_status := st, updated_at := now\<rparr> else r) rows"

text \<open>\<^verbatim>\<open>UPDATE ssl_records SET status = ? WHERE id = ?\<close> (line 181).\<close>

definition update_status :: "string \<Rightarrow> string \<Rightarrow> db \<Rightarrow> db" where
  "update_status st i rows =
     map (\<lambda>r. if row_id r = i then r\<lparr>row_status := st\<rparr> else r) rows"

text \<open>\<^verbatim>\<open>DELETE FROM ssl_records WHERE id = ?\<close> (line 206).\<close>

definition deleteById :: "string \<Rightarrow> db \<Rightarrow> db" where
  "deleteById i rows = filter (\<lambda>r. row_id r \<noteq> i) rows"

text \<open>
  \<^verbatim>\<open>SELECT * FROM ssl_records WHERE hostname = ?\<close> with \<^verbatim>\<open>.get\<close> (lines 111-113
  and 140-142): the first matching row, or \<^verbatim>\<open>undefined\<close>.
\<close>

definition getByHostname :: "string \<Rightarrow> db \<Rightarrow> ssl_record option" where
  "getByHostname h rows = find (\<lambda>r. row_hostname r = h) rows"

text \<open>
  The point lookup by primary key. index.js issues no such SELECT; it is the observation
  the properties about DELETE and UPDATE are stated with.
\<close>

definition getById :: "string \<Rightarrow> db \<Rightarrow> ssl_record option" where
  "getById i rows = find (\<lambda>r. row_id r = i) rows"

text \<open>
  \<^verbatim>\<open>SELECT * FROM ssl_records ORDER BY created_at DESC\<close> with \<^verbatim>\<open>.all\<close>
  (lines 220-222). TEXT compares bytewise, which is the order of strings here. SQL leaves
  the order among rows of equal \<^verbatim>\<open>created_at\<close> open; SQLite returns them in the
  order of their insertion, and so does the stable sort here.
\<close>

definition list_all_rows :: "db \<Rightarrow> ssl_record list" where
  "list_all_rows rows = rev (sort_key created_at (rev rows))"

text \<open>The table's two constraints: \<^verbatim>\<open>id\<close> PRIMARY KEY and \<^verbatim>\<open>hostname\<close> UNIQUE.\<close>

definition db_ok :: "db \<Rightarrow> bool" where
  "db_ok rows \<longleftrightarrow> distinct (map row_id rows) \<and> distinct (map row_hostname rows)"

section \<open>The status poller\<close>

text \<open>
  \<^verbatim>\<open>fetchCloudflareStatus(hostnameOrId, retries)\<close> (lines 244-261):
  \<^verbatim>\<open>
  for (let i = 0; i < retries; i++) {
    try { const response = await axios.get(...); return response.data.result; }
    catch (err) { ...; if (i === retries - 1) throw err; await sleep(60 s); }
  }
  \<close>
  \<open>get k\<close> is what the \<open>k\<close>-th GET of this call settles to (counted from 0): \<open>Inr\<close> the
  decoded result, \<open>Inl\<close> the rejection. The result of the loop is \<open>Inl err\<close> when it
  throws, \<open>Inr (Some r)\<close> when it returns \<open>r\<close>, and \<open>Inr None\<close> when control leaves
  the loop and the function returns \<^verbatim>\<open>undefined\<close>; the second component counts the
  GETs made and is the index of the next answer. \<open>retries\<close> is an integer of either
  sign; both call sites pass 3, so the default of the parameter is never taken. The
  60 seconds between two attempts take no part in the result.
\<close>

function fetch_loop ::
  "(nat \<Rightarrow> js_error + cf_record) \<Rightarrow> int \<Rightarrow> int \<Rightarrow> nat \<Rightarrow> (js_error + cf_record option) \<times> nat" where
  "fetch_loop get retries i calls =
     (if i < retries then
        (case get calls of
           Inr result \<Rightarrow> (Inr (Some result), Suc calls)
         | Inl err \<Rightarrow>
             if i = retries - 1 then (Inl err, Suc calls)
             else fetch_loop get retries (i + 1) (Suc calls))
      else (Inr None, calls))"
  by pat_completeness auto
termination
  by (relation "measure (\<lambda>(get, retries, i, calls). nat (retries - i))") auto

declare fetch_loop.simps [simp del]

text \<open>The authority's GET depends on the id asked for: \<open>get id k\<close>.\<close>

definition fetchCloudflareStatus ::
  "(string \<Rightarrow> nat \<Rightarrow> js_error + cf_record) \<Rightarrow> string \<Rightarrow> int \<Rightarrow> (js_error + cf_record option) \<times> nat" where
  "fetchCloudflareStatus get hostnameOrId retries = fetch_loop (get hostnameOrId) retries 0 0"

section \<open>The request handlers\<close>

text \<open>
  Every handler takes the table and returns its response with the table it leaves. What
  an awaited axios request settles to is an argument: \<open>Inr\<close> the decoded
  \<^verbatim>\<open>data.result\<close>, \<open>Inl\<close> the rejection. Each handler touches the table in one
  synchronous stretch after its last await, so it is one atomic step on the table.
\<close>

text \<open>
  \<^verbatim>\<open>POST /ssl\<close> (lines 53-103). \<open>hostname\<close> is \<^verbatim>\<open>req.body.hostname\<close>, absent or
  a string; \<^verbatim>\<open>!hostname\<close> holds for an absent and for an empty one. The third
  component is the id the detached task of lines 83-97 is started for.
\<close>

definition create_ssl ::
  "string \<Rightarrow> string option \<Rightarrow> js_error + cf_record \<Rightarrow> db \<Rightarrow> response \<times> db \<times> string option" where
  "create_ssl now hostname post rows =
     (if hostname = None \<or> hostname = Some [] then
        (Response 400 (FailMessage ''hostname required''), rows, None)
      else
        (case post of
           Inl err \<Rightarrow> (Response 500 (FailError (error_payload err)), rows, None)
         | Inr ssl \<Rightarrow>
             (Response 200 (Success (Remote (ssl\<lparr>cf_status := ''pending''\<rparr>))),
              insert_or_replace now (cf_id ssl) (cf_hostname ssl) ''pending'' rows,
              Some (cf_id ssl))))"

text \<open>
  The detached task (lines 83-97): poll with 3 attempts, then the UPDATE; a failure of
  either is caught and logged. \<open>now\<close> is the time of the UPDATE.
\<close>

definition background ::
  "string \<Rightarrow> (string \<Rightarrow> nat \<Rightarrow> js_error + cf_record) \<Rightarrow> string \<Rightarrow> db \<Rightarrow> db" where
  "background now get i rows =
     (case fst (fetchCloudflareStatus get i 3) of
        Inr (Some updated) \<Rightarrow> update_status_touch now (cf_status updated) i rows
      | Inr None \<Rightarrow> rows
      | Inl err \<Rightarrow> rows)"

text \<open>
  \<^verbatim>\<open>GET /ssl/:hostname\<close> (lines 106-133). \<open>lookup\<close> is what the filtered GET
  settles to; \<^verbatim>\<open>response.data.result?.[0]\<close> is absent for a missing and for an empty
  result.
\<close>

definition read_ssl ::
  "string \<Rightarrow> js_error + cf_record list option \<Rightarrow> db \<Rightarrow> response \<times> db" where
  "read_ssl hostname lookup rows =
     (case getByHostname hostname rows of
        Some local \<Rightarrow> (Response 200 (Success (Local local)), rows)
      | None \<Rightarrow>
          (case lookup of
             Inl error \<Rightarrow> (Response 500 (FailError (error_payload error)), rows)
           | Inr None \<Rightarrow> (Response 404 (FailMessage ''Not found''), rows)
           | Inr (Some []) \<Rightarrow> (Response 404 (FailMessage ''Not found''), rows)
           | Inr (Some (result # others)) \<Rightarrow> (Response 200 (Success (Remote result)), rows)))"

text \<open>
  \<^verbatim>\<open>GET /ssl/:hostname/recheck\<close> (lines 136-164). Reading \<^verbatim>\<open>updated.status\<close> of
  an \<^verbatim>\<open>undefined\<close> poll result is a TypeError, caught like any other.
\<close>

definition recheck_ssl ::
  "string \<Rightarrow> (string \<Rightarrow> nat \<Rightarrow> js_error + cf_record) \<Rightarrow> string \<Rightarrow> db \<Rightarrow> response \<times> db" where
  "recheck_ssl now get hostname rows =
     (case getByHostname hostname rows of
        None \<Rightarrow> (Response 404 (FailMessage ''Not found in DB''), rows)
      | Some record \<Rightarrow>
          (case fst (fetchCloudflareStatus get (row_id record) 3) of
             Inl err \<Rightarrow> (Response 500 (FailError (error_payload err)), rows)
           | Inr None \<Rightarrow>
               (Response 500 (FailError (error_payload (TypeError undefined_status_message))), rows)
           | Inr (Some updated) \<Rightarrow>
               (Response 200 (Success (Remote updated)),
                update_status_touch now (cf_status updated) (row_id record) rows)))"

text \<open>\<^verbatim>\<open>PUT /ssl/:id\<close> (lines 167-193). \<open>patch\<close> is what the PATCH settles to.\<close>

definition update_ssl :: "string \<Rightarrow> js_error + cf_record \<Rightarrow> db \<Rightarrow> response \<times> db" where
  "update_ssl i patch rows =
     (case patch of
        Inl error \<Rightarrow> (Response 500 (FailError (error_payload error)), rows)
      | Inr updated \<Rightarrow>
          (Response 200 (Success (Remote updated)), update_status (cf_status updated) i rows))"

text \<open>
  \<^verbatim>\<open>DELETE /ssl/:id\<close> (lines 196-215). \<open>del\<close> is what the remote DELETE settles to;
  its \<^verbatim>\<open>data.result\<close> is passed through unread.
\<close>

definition delete_ssl :: "string \<Rightarrow> js_error + string \<Rightarrow> db \<Rightarrow> response \<times> db" where
  "delete_ssl i del rows =
     (case del of
        Inl error \<Rightarrow> (Response 500 (FailError (error_payload error)), rows)
      | Inr result \<Rightarrow> (Response 200 (Success (DeleteResult result)), deleteById i rows))"

text \<open>\<^verbatim>\<open>GET /ssl\<close> (lines 218-227).\<close>

definition list_ssl :: "db \<Rightarrow> response \<times> db" where
  "list_ssl rows = (Response 200 (Success (Rows (list_all_rows rows))), rows)"

section \<open>Interleavings\<close>

text \<open>
  The process is one event loop: between two awaits nothing else runs. The table
  therefore sees a sequence of atomic steps, one per handler and one per detached task,
  each at its own time. An event carries what the authority answered to it.
\<close>

datatype event =
  Create "string option" "js_error + cf_record"
  | Background "string \<Rightarrow> nat \<Rightarrow> js_error + cf_record" string
  | Read string "js_error + cf_record list option"
  | Recheck "string \<Rightarrow> nat \<Rightarrow> js_error + cf_record" string
  | Update string "js_error + cf_record"
  | Delete string "js_error + string"
  | ListAll

fun step :: "string \<times> event \<Rightarrow> db \<Rightarrow> db" where
  "step (now, Create hostname post) rows = fst (snd (create_ssl now hostname post rows))"
| "step (now, Background get i) rows = background now get i rows"
| "step (now, Read hostname lookup) rows = snd (read_ssl hostname lookup rows)"
| "step (now, Recheck get hostname) rows = snd (recheck_ssl now get hostname rows)"
| "step (now, Update i patch) rows = snd (update_ssl i patch rows)"
| "step (now, Delete i del) rows = snd (delete_ssl i del rows)"
| "step (now, ListAll) rows = snd (list_ssl rows)"

definition run :: "(string \<times> event) list \<Rightarrow> db \<Rightarrow> db" where
  "run events rows = fold step events rows"

text \<open>
  The events a series of Create requests for the hostname \<open>h\<close> gives rise to, under the
  condition that the authority echoes the hostname: the requests themselves, where the
  authority rejects or answers with a record whose \<^verbatim>\<open>hostname\<close> is again \<open>h\<close>, and
  the detached tasks. The condition is not one index.js checks: line 77 stores
  \<^verbatim>\<open>ssl.hostname\<close>, whatever was asked for.
\<close>

fun create_activity :: "string \<Rightarrow> event \<Rightarrow> bool" where
  "create_activity h (Create hostname post) =
     (hostname = Some h \<and> (case post of Inl err \<Rightarrow> True | Inr ssl \<Rightarrow> cf_hostname ssl = h))"
| "create_activity h (Background get i) = True"
| "create_activity h e = False"

text \<open>
  A Create request for \<open>h\<close> that passed validation and that the authority accepted with a
  record whose \<^verbatim>\<open>hostname\<close> is \<open>h\<close>.
\<close>

fun created :: "string \<Rightarrow> event \<Rightarrow> bool" where
  "created h (Create hostname post) =
     (hostname = Some h \<and> h \<noteq> [] \<and> (case post of Inl err \<Rightarrow> False | Inr ssl \<Rightarrow> cf_hostname ssl = h))"
| "created h e = False"

section \<open>The poller's retry budget\<close>

lemma fetch_loop_skip_failures:
  "i + int n \<le> retries - 1 \<Longrightarrow> \<forall>k<n. isl (get (calls + k)) \<Longrightarrow>
   fetch_loop get retries i calls = fetch_loop get retries (i + int n) (calls + n)"
proof (induction n arbitrary: i calls)
  case 0
  then show ?case by simp
next
  case (Suc n)
  from Suc.prems(2) have "isl (get (calls + 0))" by blast
  then obtain err where e: "get calls = Inl err" by (cases "get calls") auto
  have rest: "\<forall>k<n. isl (get (Suc calls + k))"
  proof (intro allI impI)
    fix k assume "k < n"
    then have "isl (get (calls + Suc k))" using Suc.prems(2) by blast
    then show "isl (get (Suc calls + k))" by simp
  qed
  have "fetch_loop get retries i calls = fetch_loop get retries (i + 1) (Suc calls)"
    using Suc.prems(1) e by (subst fetch_loop.simps) simp
  also have "\<dots> = fetch_loop get retries (i + 1 + int n) (Suc calls + n)"
    using Suc.prems(1) rest by (intro Suc.IH) simp_all
  finally show ?case by (simp add: ac_simps)
qed

lemma poll_success_at:
  assumes "int k < retries" and "\<forall>j<k. isl (get i j)" and "get i k = Inr r"
  shows "fetchCloudflareStatus get i retries = (Inr (Some r), Suc k)"
proof -
  have "fetch_loop (get i) retries 0 0 = fetch_loop (get i) retries (0 + int k) (0 + k)"
    using assms(1,2) by (intro fetch_loop_skip_failures) simp_all
  also have "\<dots> = (Inr (Some r), Suc k)"
    using assms(1,3) by (subst fetch_loop.simps) simp
  finally show ?thesis by (simp add: fetchCloudflareStatus_def)
qed

lemma poll_exhausted:
  assumes "1 \<le> retries" and "\<forall>j<nat retries. isl (get i j)"
  shows "\<exists>err. get i (nat retries - 1) = Inl err
           \<and> fetchCloudflareStatus get i retries = (Inl err, nat retries)"
proof -
  define n where "n = nat retries - 1"
  have n: "int n = retries - 1" "Suc n = nat retries" using assms(1) by (simp_all add: n_def)
  have "isl (get i n)" using assms(2) n by simp
  then obtain err where e: "get i n = Inl err" by (cases "get i n") auto
  have "fetch_loop (get i) retries 0 0 = fetch_loop (get i) retries (0 + int n) (0 + n)"
    using assms(2) n by (intro fetch_loop_skip_failures) simp_all
  also have "\<dots> = (Inl err, Suc n)"
    using n e by (subst fetch_loop.simps) simp
  finally have "fetchCloudflareStatus get i retries = (Inl err, nat retries)"
    using n by (simp add: fetchCloudflareStatus_def)
  with e show ?thesis unfolding n_def by blast
qed

text \<open>
  C3 as stated fails in its second half: after three failed GETs the poll does not throw
  a PollExhausted that wraps the last failure. Line 257 rethrows the caught error as it
  is, so the value thrown is the rejection of the third GET itself, an axios error that
  still carries the authority's response body, and Recheck answers 500 with that body.
\<close>

theorem poll_rethrows_last_failure_unwrapped:
  "fetchCloudflareStatus
     (\<lambda>i k. Inl (AxiosError (Some (if k = 2 then ''third'' else ''earlier''))
        ''Request failed with status code 503''))
     ''abc'' 3
   = (Inl (AxiosError (Some ''third'') ''Request failed with status code 503''), 3)
   \<and> (\<lambda>(i::string) (k::nat). (Inl (AxiosError (Some (if k = 2 then ''third'' else ''earlier''))
        ''Request failed with status code 503'') :: js_error + cf_record))
     ''abc'' 2
   = Inl (AxiosError (Some ''third'') ''Request failed with status code 503'')
   \<and> recheck_ssl ''2025-01-01 00:03:00''
     (\<lambda>i k. Inl (AxiosError (Some (if k = 2 then ''third'' else ''earlier''))
        ''Request failed with status code 503''))
     ''example.com''
     [\<lparr>row_id = ''abc'', row_hostname = ''example.com'', row_status = ''pending'',
       created_at = ''2025-01-01 00:00:00'', updated_at = ''2025-01-01 00:00:00''\<rparr>]
   = (Response 500 (FailError ''third''),
      [\<lparr>row_id = ''abc'', row_hostname = ''example.com'', row_status = ''pending'',
        created_at = ''2025-01-01 00:00:00'', updated_at = ''2025-01-01 00:00:00''\<rparr>])"
  by (simp add: fetchCloudflareStatus_def fetch_loop.simps recheck_ssl_def getByHostname_def)

text \<open>
  C3 as amended. For \<open>retries \<ge> 1\<close>: when the first \<open>retries - 1\<close> GETs fail and the
  last one succeeds, the poll returns that success, after exactly \<open>retries\<close> GETs; when
  all \<open>retries\<close> GETs fail, the poll throws the error of the last GET itself, unwrapped,
  after exactly \<open>retries\<close> GETs.
\<close>

theorem poll_retry_budget:
  assumes "1 \<le> retries"
  shows "((\<forall>j<nat retries - 1. isl (get i j)) \<and> get i (nat retries - 1) = Inr r
            \<longrightarrow> fetchCloudflareStatus get i retries = (Inr (Some r), nat retries))
       \<and> ((\<forall>j<nat retries. isl (get i j))
            \<longrightarrow> (\<exists>err. get i (nat retries - 1) = Inl err
                  \<and> fetchCloudflareStatus get i retries = (Inl err, nat retries)))"
proof (intro conjI impI)
  assume a: "(\<forall>j<nat retries - 1. isl (get i j)) \<and> get i (nat retries - 1) = Inr r"
  have "int (nat retries - 1) < retries" using assms by simp
  then have "fetchCloudflareStatus get i retries = (Inr (Some r), Suc (nat retries - 1))"
    using a by (intro poll_success_at) simp_all
  then show "fetchCloudflareStatus get i retries = (Inr (Some r), nat retries)"
    using assms by simp
next
  assume "\<forall>j<nat retries. isl (get i j)"
  then show "\<exists>err. get i (nat retries - 1) = Inl err
      \<and> fetchCloudflareStatus get i retries = (Inl err, nat retries)"
    using assms by (rule poll_exhausted[rotated])
qed

text \<open>
  The two stubs of the amended C3 at \<open>retries = 3\<close>: two rejections, then a record; and
  three rejections, of which the last is thrown.
\<close>

theorem poll_retry_budget_witness:
  "fetchCloudflareStatus
     (\<lambda>i k. if k < 2 then Inl (AxiosError None ''timeout'')
            else Inr \<lparr>cf_id = i, cf_hostname = ''example.com'', cf_status = ''active''\<rparr>)
     ''abc'' 3
   = (Inr (Some \<lparr>cf_id = ''abc'', cf_hostname = ''example.com'', cf_status = ''active''\<rparr>), 3)
   \<and> fetchCloudflareStatus
     (\<lambda>i k. if k < 2 then Inl (AxiosError None ''timeout'') else Inl (AxiosError (Some ''gone'') ''404''))
     ''abc'' 3
   = (Inl (AxiosError (Some ''gone'') ''404''), 3)"
proof -
  have one: "(1::int) \<le> 3" by simp
  show ?thesis
    using poll_retry_budget [OF one,
        of "\<lambda>i k. if k < 2 then Inl (AxiosError None ''timeout'')
            else Inr \<lparr>cf_id = i, cf_hostname = ''example.com'', cf_status = ''active''\<rparr>"
           "''abc''" "\<lparr>cf_id = ''abc'', cf_hostname = ''example.com'', cf_status = ''active''\<rparr>"]
      poll_retry_budget [OF one,
        of "\<lambda>i k. if k < 2 then Inl (AxiosError None ''timeout'')
            else Inl (AxiosError (Some ''gone'') ''404'')" "''abc''"]
    by (simp add: numeral_2_eq_2 numeral_3_eq_3 less_Suc_eq)
qed

text \<open>
  C10. With \<open>retries = 0\<close> the loop body never runs: the call returns \<^verbatim>\<open>undefined\<close>,
  makes no GET and throws nothing, whatever the authority would have answered.
\<close>

theorem poll_zero_attempts:
  "fetchCloudflareStatus get hostnameOrId 0 = (Inr None, 0)"
  by (simp add: fetchCloudflareStatus_def fetch_loop.simps)

section \<open>Facts about the statements\<close>

lemma find_after_misses:
  "\<forall>x\<in>set xs. \<not> P x \<Longrightarrow> P y \<Longrightarrow> find P (xs @ [y]) = Some y"
  by (induction xs) simp_all

lemma find_unique_key:
  "distinct (map key xs) \<Longrightarrow> x \<in> set xs \<Longrightarrow> find (\<lambda>y. key y = key x) xs = Some x"
  by (induction xs) (auto simp: image_iff)

lemma find_singleton_filter:
  "filter P xs = [x] \<Longrightarrow> find P xs = Some x"
proof (induction xs)
  case Nil
  then show ?case by simp
next
  case (Cons a xs)
  then show ?case by (cases "P a") simp_all
qed

lemma getById_insert_or_replace:
  "getById i (insert_or_replace now i h st rows)
     = Some \<lparr>row_id = i, row_hostname = h, row_status = st, created_at = now, updated_at = now\<rparr>"
  unfolding getById_def insert_or_replace_def
  by (rule find_after_misses) simp_all

lemma getByHostname_insert_or_replace:
  "getByHostname h (insert_or_replace now i h st rows)
     = Some \<lparr>row_id = i, row_hostname = h, row_status = st, created_at = now, updated_at = now\<rparr>"
  unfolding getByHostname_def insert_or_replace_def
  by (rule find_after_misses) simp_all

lemma getById_deleteById: "getById i (deleteById i rows) = None"
  by (simp add: getById_def deleteById_def find_None_iff)

lemma set_list_all_rows: "set (list_all_rows rows) = set rows"
  by (simp add: list_all_rows_def)

lemma getByHostname_None_iff:
  "getByHostname h rows = None \<longleftrightarrow> (\<forall>r\<in>set rows. row_hostname r \<noteq> h)"
  by (auto simp: getByHostname_def find_None_iff)

section \<open>Delete\<close>

text \<open>
  C8. When the remote DELETE did not reject, the handler answers 200 with the authority's
  result, whatever that result \<open>result\<close> says, and the table it leaves has no row with
  the id: \<open>getById\<close> is absent.
\<close>

theorem delete_removes_local_row:
  "fst (delete_ssl i (Inr result) rows) = Response 200 (Success (DeleteResult result))
   \<and> getById i (snd (delete_ssl i (Inr result) rows)) = None"
  by (simp add: delete_ssl_def getById_deleteById)

section \<open>Read\<close>

text \<open>
  C6. \<open>read_ssl\<close> answers with the stored row when the hostname has one. When it has
  none, the answer follows the authority's filtered lookup: 404 "Not found" when the
  result is missing or empty, 200 with the first record otherwise (and 500 with the
  error's payload when the lookup itself is rejected). In every case the table is left as
  it was, so the listing afterwards is the listing before, and after a local miss it has
  no row of that hostname.
\<close>

theorem read_through_miss_does_not_write:
  "snd (read_ssl h lookup rows) = rows
   \<and> list_ssl (snd (read_ssl h lookup rows)) = list_ssl rows
   \<and> (\<forall>local. getByHostname h rows = Some local
        \<longrightarrow> fst (read_ssl h lookup rows) = Response 200 (Success (Local local)))
   \<and> (getByHostname h rows = None \<longrightarrow>
        (lookup = Inr None \<or> lookup = Inr (Some [])
           \<longrightarrow> fst (read_ssl h lookup rows) = Response 404 (FailMessage ''Not found''))
        \<and> (\<forall>result others. lookup = Inr (Some (result # others))
           \<longrightarrow> fst (read_ssl h lookup rows) = Response 200 (Success (Remote result)))
        \<and> (\<forall>error. lookup = Inl error
           \<longrightarrow> fst (read_ssl h lookup rows) = Response 500 (FailError (error_payload error)))
        \<and> (\<forall>r\<in>set (list_all_rows (snd (read_ssl h lookup rows))). row_hostname r \<noteq> h))"
proof -
  have same: "snd (read_ssl h lookup rows) = rows"
    by (simp add: read_ssl_def split: option.split sum.split list.split)
  have miss: "\<forall>r\<in>set (list_all_rows rows). row_hostname r \<noteq> h"
    if "getByHostname h rows = None"
    using that by (simp add: set_list_all_rows getByHostname_None_iff)
  show ?thesis
    using same miss by (auto simp: read_ssl_def)
qed

text \<open>
  C6 on a table holding \<^verbatim>\<open>a.example\<close> only: a read of \<^verbatim>\<open>a.example\<close> is served from
  the table; a read of \<^verbatim>\<open>b.example\<close> is answered from the authority's lookup, 404 on
  an empty result and 200 with the record otherwise, and the table is the same afterwards.
\<close>

theorem read_through_miss_does_not_write_witness:
  "read_ssl ''a.example'' (Inr None)
     [\<lparr>row_id = ''a1'', row_hostname = ''a.example'', row_status = ''active'',
       created_at = ''2025-01-01 00:00:00'', updated_at = ''2025-01-01 00:00:00''\<rparr>]
   = (Response 200 (Success (Local
       \<lparr>row_id = ''a1'', row_hostname = ''a.example'', row_status = ''active'',
        created_at = ''2025-01-01 00:00:00'', updated_at = ''2025-01-01 00:00:00''\<rparr>)),
      [\<lparr>row_id = ''a1'', row_hostname = ''a.example'', row_status = ''active'',
        created_at = ''2025-01-01 00:00:00'', updated_at = ''2025-01-01 00:00:00''\<rparr>])
   \<and> read_ssl ''b.example'' (Inr (Some []))
     [\<lparr>row_id = ''a1'', row_hostname = ''a.example'', row_status = ''active'',
       created_at = ''2025-01-01 00:00:00'', updated_at = ''2025-01-01 00:00:00''\<rparr>]
   = (Response 404 (FailMessage ''Not found''),
      [\<lparr>row_id = ''a1'', row_hostname = ''a.example'', row_status = ''active'',
        created_at = ''2025-01-01 00:00:00'', updated_at = ''2025-01-01 00:00:00''\<rparr>])
   \<and> read_ssl ''b.example''
     (Inr (Some [\<lparr>cf_id = ''b1'', cf_hostname = ''b.example'', cf_status = ''active''\<rparr>]))
     [\<lparr>row_id = ''a1'', row_hostname = ''a.example'', row_status = ''active'',
       created_at = ''2025-01-01 00:00:00'', updated_at = ''2025-01-01 00:00:00''\<rparr>]
   = (Response 200 (Success (Remote
        \<lparr>cf_id = ''b1'', cf_hostname = ''b.example'', cf_status = ''active''\<rparr>)),
      [\<lparr>row_id = ''a1'', row_hostname = ''a.example'', row_status = ''active'',
        created_at = ''2025-01-01 00:00:00'', updated_at = ''2025-01-01 00:00:00''\<rparr>])
   \<and> read_ssl ''b.example'' (Inl (AxiosError None ''timeout''))
     [\<lparr>row_id = ''a1'', row_hostname = ''a.example'', row_status = ''active'',
       created_at = ''2025-01-01 00:00:00'', updated_at = ''2025-01-01 00:00:00''\<rparr>]
   = (Response 500 (FailError ''timeout''),
      [\<lparr>row_id = ''a1'', row_hostname = ''a.example'', row_status = ''active'',
        created_at = ''2025-01-01 00:00:00'', updated_at = ''2025-01-01 00:00:00''\<rparr>])"
proof -
  let ?a = "\<lparr>row_id = ''a1'', row_hostname = ''a.example'', row_status = ''active'',
       created_at = ''2025-01-01 00:00:00'', updated_at = ''2025-01-01 00:00:00''\<rparr>"
  have hit: "getByHostname ''a.example'' [?a] = Some ?a"
    and miss: "getByHostname ''b.example'' [?a] = None"
    by (simp_all add: getByHostname_def)
  show ?thesis
    using hit miss
      read_through_miss_does_not_write [of "''a.example''" "Inr None" "[?a]"]
      read_through_miss_does_not_write [of "''b.example''" "Inr (Some [])" "[?a]"]
      read_through_miss_does_not_write [of "''b.example''"
        "Inr (Some [\<lparr>cf_id = ''b1'', cf_hostname = ''b.example'', cf_status = ''active''\<rparr>])" "[?a]"]
      read_through_miss_does_not_write [of "''b.example''" "Inl (AxiosError None ''timeout'')" "[?a]"]
    by (simp add: prod_eq_iff)
qed

section \<open>Create\<close>

text \<open>
  C4. For a Create whose hostname passes validation and whose POST the authority
  accepted with the record \<open>ssl\<close>, whatever status \<open>ssl\<close> carries: the response is 200
  with \<open>ssl\<close> at status "pending"; the table the handler leaves, which is the table
  before the detached task writes, has under \<open>ssl\<close>'s id the row of \<open>ssl\<close>'s hostname at
  status "pending"; a Read of that hostname on this table answers with that row; and the
  detached task is started for \<open>ssl\<close>'s id.
\<close>

theorem create_answers_pending:
  assumes "hostname \<noteq> None" and "hostname \<noteq> Some []"
  shows "fst (create_ssl now hostname (Inr ssl) rows)
           = Response 200 (Success (Remote (ssl\<lparr>cf_status := ''pending''\<rparr>)))
       \<and> getById (cf_id ssl) (fst (snd (create_ssl now hostname (Inr ssl) rows)))
           = Some \<lparr>row_id = cf_id ssl, row_hostname = cf_hostname ssl, row_status = ''pending'',
                   created_at = now, updated_at = now\<rparr>
       \<and> fst (read_ssl (cf_hostname ssl) lookup (fst (snd (create_ssl now hostname (Inr ssl) rows))))
           = Response 200 (Success (Local
               \<lparr>row_id = cf_id ssl, row_hostname = cf_hostname ssl, row_status = ''pending'',
                created_at = now, updated_at = now\<rparr>))
       \<and> snd (snd (create_ssl now hostname (Inr ssl) rows)) = Some (cf_id ssl)"
  using assms
  by (simp add: create_ssl_def read_ssl_def getById_insert_or_replace
      getByHostname_insert_or_replace)

text \<open>
  C4 when the authority already reports "active" on create, and the table holds an older
  row of the same id at "active".
\<close>

theorem create_answers_pending_witness:
  "create_ssl ''2025-01-02 00:00:00'' (Some ''example.com'')
     (Inr \<lparr>cf_id = ''abc'', cf_hostname = ''example.com'', cf_status = ''active''\<rparr>)
     [\<lparr>row_id = ''abc'', row_hostname = ''example.com'', row_status = ''active'',
       created_at = ''2025-01-01 00:00:00'', updated_at = ''2025-01-01 00:00:00''\<rparr>]
   = (Response 200 (Success (Remote
        \<lparr>cf_id = ''abc'', cf_hostname = ''example.com'', cf_status = ''pending''\<rparr>)),
      [\<lparr>row_id = ''abc'', row_hostname = ''example.com'', row_status = ''pending'',
        created_at = ''2025-01-02 00:00:00'', updated_at = ''2025-01-02 00:00:00''\<rparr>],
      Some ''abc'')
   \<and> getById ''abc'' (fst (snd (create_ssl ''2025-01-02 00:00:00'' (Some ''example.com'')
     (Inr \<lparr>cf_id = ''abc'', cf_hostname = ''example.com'', cf_status = ''active''\<rparr>)
     [\<lparr>row_id = ''abc'', row_hostname = ''example.com'', row_status = ''active'',
       created_at = ''2025-01-01 00:00:00'', updated_at = ''2025-01-01 00:00:00''\<rparr>])))
   = Some \<lparr>row_id = ''abc'', row_hostname = ''example.com'', row_status = ''pending'',
        created_at = ''2025-01-02 00:00:00'', updated_at = ''2025-01-02 00:00:00''\<rparr>"
proof -
  have h: "Some ''example.com'' \<noteq> None" "Some ''example.com'' \<noteq> Some []" by simp_all
  have t: "create_ssl ''2025-01-02 00:00:00'' (Some ''example.com'')
     (Inr \<lparr>cf_id = ''abc'', cf_hostname = ''example.com'', cf_status = ''active''\<rparr>)
     [\<lparr>row_id = ''abc'', row_hostname = ''example.com'', row_status = ''active'',
       created_at = ''2025-01-01 00:00:00'', updated_at = ''2025-01-01 00:00:00''\<rparr>]
   = (Response 200 (Success (Remote
        \<lparr>cf_id = ''abc'', cf_hostname = ''example.com'', cf_status = ''pending''\<rparr>)),
      [\<lparr>row_id = ''abc'', row_hostname = ''example.com'', row_status = ''pending'',
        created_at = ''2025-01-02 00:00:00'', updated_at = ''2025-01-02 00:00:00''\<rparr>],
      Some ''abc'')"
    by (simp add: create_ssl_def insert_or_replace_def)
  show ?thesis
    using t create_answers_pending [OF h, of "''2025-01-02 00:00:00''"
        "\<lparr>cf_id = ''abc'', cf_hostname = ''example.com'', cf_status = ''active''\<rparr>"
        "[\<lparr>row_id = ''abc'', row_hostname = ''example.com'', row_status = ''active'',
          created_at = ''2025-01-01 00:00:00'', updated_at = ''2025-01-01 00:00:00''\<rparr>]"]
    by simp
qed

section \<open>Recheck\<close>

lemma getByHostname_mem: "getByHostname h rows = Some record \<Longrightarrow> record \<in> set rows"
  by (auto simp: getByHostname_def find_Some_iff)

lemma getById_unique:
  "distinct (map row_id rows) \<Longrightarrow> record \<in> set rows \<Longrightarrow> getById (row_id record) rows = Some record"
  unfolding getById_def by (rule find_unique_key)

lemma find_map_same_test:
  "(\<And>x. P (f x) = P x) \<Longrightarrow> find P (map f xs) = map_option f (find P xs)"
  by (induction xs) simp_all

lemma getById_update_status_touch:
  "getById i (update_status_touch now st j rows)
     = map_option (\<lambda>r. if row_id r = j then r\<lparr>row_status := st, updated_at := now\<rparr> else r)
         (getById i rows)"
  unfolding getById_def update_status_touch_def
  by (rule find_map_same_test) simp

text \<open>
  C7. On a table that meets its key constraints: without a row of the hostname, Recheck
  answers 404 "Not found in DB" and leaves the table alone. With the row \<open>record\<close>, it
  polls \<open>record\<close>'s id with a budget of 3 GETs. If the \<open>k\<close>-th GET (\<open>k < 3\<close>) is the first
  to succeed, with \<open>updated\<close>, the answer is 200 with \<open>updated\<close>, the row of that id now
  carries \<open>updated\<close>'s status and the time of the write as \<open>updated_at\<close>, and \<open>k + 1\<close>
  GETs were made. If all 3 GETs fail, the answer is 500 with the payload of the third
  failure, and the table is left alone: no record is returned and none is written.
\<close>

theorem recheck_polls_synchronously:
  assumes "db_ok rows"
  shows "(getByHostname h rows = None
            \<longrightarrow> recheck_ssl now get h rows = (Response 404 (FailMessage ''Not found in DB''), rows))
       \<and> (\<forall>record. getByHostname h rows = Some record \<longrightarrow>
            (\<forall>k updated. k < 3 \<and> (\<forall>j<k. isl (get (row_id record) j))
                  \<and> get (row_id record) k = Inr updated \<longrightarrow>
               fst (recheck_ssl now get h rows) = Response 200 (Success (Remote updated))
               \<and> getById (row_id record) (snd (recheck_ssl now get h rows))
                   = Some (record\<lparr>row_status := cf_status updated, updated_at := now\<rparr>)
               \<and> snd (fetchCloudflareStatus get (row_id record) 3) = Suc k)
            \<and> ((\<forall>j<3. isl (get (row_id record) j)) \<longrightarrow>
               (\<exists>err. get (row_id record) 2 = Inl err
                  \<and> recheck_ssl now get h rows
                      = (Response 500 (FailError (error_payload err)), rows))))"
proof (intro conjI allI impI)
  assume "getByHostname h rows = None"
  then show "recheck_ssl now get h rows = (Response 404 (FailMessage ''Not found in DB''), rows)"
    by (simp add: recheck_ssl_def)
next
  fix entry k updated
  assume found: "getByHostname h rows = Some entry"
    and ok: "k < 3 \<and> (\<forall>j<k. isl (get (row_id entry) j)) \<and> get (row_id entry) k = Inr updated"
  have poll: "fetchCloudflareStatus get (row_id entry) 3 = (Inr (Some updated), Suc k)"
    using ok by (intro poll_success_at) simp_all
  have row: "getById (row_id entry) rows = Some entry"
    using assms found by (intro getById_unique getByHostname_mem) (simp_all add: db_ok_def)
  show "fst (recheck_ssl now get h rows) = Response 200 (Success (Remote updated))"
    using found poll by (simp add: recheck_ssl_def)
  show "getById (row_id entry) (snd (recheck_ssl now get h rows))
          = Some (entry\<lparr>row_status := cf_status updated, updated_at := now\<rparr>)"
    using found poll row by (simp add: recheck_ssl_def getById_update_status_touch)
  show "snd (fetchCloudflareStatus get (row_id entry) 3) = Suc k"
    using poll by simp
next
  fix entry
  assume found: "getByHostname h rows = Some entry"
    and fails: "\<forall>j<3. isl (get (row_id entry) j)"
  have "\<exists>err. get (row_id entry) (nat 3 - 1) = Inl err
          \<and> fetchCloudflareStatus get (row_id entry) 3 = (Inl err, nat 3)"
    using fails by (intro poll_exhausted) simp_all
  then obtain err where "get (row_id entry) 2 = Inl err"
    and "fetchCloudflareStatus get (row_id entry) 3 = (Inl err, 3)"
    by (auto simp: numeral_2_eq_2 numeral_3_eq_3)
  then show "\<exists>err. get (row_id entry) 2 = Inl err
      \<and> recheck_ssl now get h rows = (Response 500 (FailError (error_payload err)), rows)"
    using found by (simp add: recheck_ssl_def)
qed

text \<open>
  C7 on a table with one row of \<^verbatim>\<open>example.com\<close> at "pending": a hostname without a row
  gives 404; an authority that rejects once and then reports "active" gives 200 and the
  row at "active"; an authority that rejects three times gives 500 and the row untouched.
\<close>

theorem recheck_polls_synchronously_witness:
  "db_ok [\<lparr>row_id = ''abc'', row_hostname = ''example.com'', row_status = ''pending'',
       created_at = ''2025-01-01 00:00:00'', updated_at = ''2025-01-01 00:00:00''\<rparr>]
   \<and> recheck_ssl ''2025-01-01 00:02:00'' (\<lambda>i k. Inl (AxiosError None ''timeout'')) ''other.example''
     [\<lparr>row_id = ''abc'', row_hostname = ''example.com'', row_status = ''pending'',
       created_at = ''2025-01-01 00:00:00'', updated_at = ''2025-01-01 00:00:00''\<rparr>]
     = (Response 404 (FailMessage ''Not found in DB''),
        [\<lparr>row_id = ''abc'', row_hostname = ''example.com'', row_status = ''pending'',
          created_at = ''2025-01-01 00:00:00'', updated_at = ''2025-01-01 00:00:00''\<rparr>])
   \<and> fst (recheck_ssl ''2025-01-01 00:02:00''
       (\<lambda>i k. if k < 1 then Inl (AxiosError None ''timeout'')
              else Inr \<lparr>cf_id = i, cf_hostname = ''example.com'', cf_status = ''active''\<rparr>)
       ''example.com''
       [\<lparr>row_id = ''abc'', row_hostname = ''example.com'', row_status = ''pending'',
         created_at = ''2025-01-01 00:00:00'', updated_at = ''2025-01-01 00:00:00''\<rparr>])
     = Response 200 (Success (Remote
         \<lparr>cf_id = ''abc'', cf_hostname = ''example.com'', cf_status = ''active''\<rparr>))
   \<and> getById ''abc'' (snd (recheck_ssl ''2025-01-01 00:02:00''
       (\<lambda>i k. if k < 1 then Inl (AxiosError None ''timeout'')
              else Inr \<lparr>cf_id = i, cf_hostname = ''example.com'', cf_status = ''active''\<rparr>)
       ''example.com''
       [\<lparr>row_id = ''abc'', row_hostname = ''example.com'', row_status = ''pending'',
         created_at = ''2025-01-01 00:00:00'', updated_at = ''2025-01-01 00:00:00''\<rparr>]))
     = Some \<lparr>row_id = ''abc'', row_hostname = ''example.com'', row_status = ''active'',
         created_at = ''2025-01-01 00:00:00'', updated_at = ''2025-01-01 00:02:00''\<rparr>
   \<and> recheck_ssl ''2025-01-01 00:02:00'' (\<lambda>i k. Inl (AxiosError (Some ''busy'') ''503''))
       ''example.com''
       [\<lparr>row_id = ''abc'', row_hostname = ''example.com'', row_status = ''pending'',
         created_at = ''2025-01-01 00:00:00'', updated_at = ''2025-01-01 00:00:00''\<rparr>]
     = (Response 500 (FailError ''busy''),
        [\<lparr>row_id = ''abc'', row_hostname = ''example.com'', row_status = ''pending'',
          created_at = ''2025-01-01 00:00:00'', updated_at = ''2025-01-01 00:00:00''\<rparr>])"
proof -
  let ?row = "\<lparr>row_id = ''abc'', row_hostname = ''example.com'', row_status = ''pending'',
       created_at = ''2025-01-01 00:00:00'', updated_at = ''2025-01-01 00:00:00''\<rparr>"
  let ?late = "\<lambda>(i::string) (k::nat). if k < 1 then Inl (AxiosError None ''timeout'')
      else Inr \<lparr>cf_id = i, cf_hostname = ''example.com'', cf_status = ''active''\<rparr>"
  have ok: "db_ok [?row]" by (simp add: db_ok_def)
  have hit: "getByHostname ''example.com'' [?row] = Some ?row"
    and miss: "getByHostname ''other.example'' [?row] = None"
    by (simp_all add: getByHostname_def)
  have a: "recheck_ssl ''2025-01-01 00:02:00'' (\<lambda>i k. Inl (AxiosError None ''timeout''))
      ''other.example'' [?row] = (Response 404 (FailMessage ''Not found in DB''), [?row])"
    using miss recheck_polls_synchronously [OF ok, of "''other.example''"] by simp
  have b: "fst (recheck_ssl ''2025-01-01 00:02:00'' ?late ''example.com'' [?row])
      = Response 200 (Success (Remote
         \<lparr>cf_id = ''abc'', cf_hostname = ''example.com'', cf_status = ''active''\<rparr>))
    \<and> getById ''abc'' (snd (recheck_ssl ''2025-01-01 00:02:00'' ?late ''example.com'' [?row]))
      = Some \<lparr>row_id = ''abc'', row_hostname = ''example.com'', row_status = ''active'',
         created_at = ''2025-01-01 00:00:00'', updated_at = ''2025-01-01 00:02:00''\<rparr>"
    using hit recheck_polls_synchronously [OF ok, of "''example.com''" "''2025-01-01 00:02:00''" ?late,
        THEN conjunct2, rule_format, OF hit, THEN conjunct1, rule_format, of 1
        "\<lparr>cf_id = ''abc'', cf_hostname = ''example.com'', cf_status = ''active''\<rparr>"]
    by simp
  have c: "recheck_ssl ''2025-01-01 00:02:00'' (\<lambda>i k. Inl (AxiosError (Some ''busy'') ''503''))
       ''example.com'' [?row] = (Response 500 (FailError ''busy''), [?row])"
    using hit recheck_polls_synchronously [OF ok, of "''example.com''" "''2025-01-01 00:02:00''"
        "\<lambda>i k. Inl (AxiosError (Some ''busy'') ''503'')",
        THEN conjunct2, rule_format, OF hit, THEN conjunct2]
    by simp
  show ?thesis using ok a b c by simp
qed

section \<open>Timestamps\<close>

lemma keys_update_status_touch:
  "map (\<lambda>r. (row_id r, row_hostname r, created_at r)) (update_status_touch now st i rows)
     = map (\<lambda>r. (row_id r, row_hostname r, created_at r)) rows"
  by (simp add: update_status_touch_def)

lemma keys_update_status:
  "map (\<lambda>r. (row_id r, row_hostname r, created_at r)) (update_status st i rows)
     = map (\<lambda>r. (row_id r, row_hostname r, created_at r)) rows"
  by (simp add: update_status_def)

lemma keys_background:
  "map (\<lambda>r. (row_id r, row_hostname r, created_at r)) (background now get i rows)
     = map (\<lambda>r. (row_id r, row_hostname r, created_at r)) rows"
  by (simp add: background_def keys_update_status_touch split: sum.split option.split)

lemma keys_recheck_ssl:
  "map (\<lambda>r. (row_id r, row_hostname r, created_at r)) (snd (recheck_ssl now get h rows))
     = map (\<lambda>r. (row_id r, row_hostname r, created_at r)) rows"
  by (simp add: recheck_ssl_def keys_update_status_touch split: sum.split option.split)

lemma keys_update_ssl:
  "map (\<lambda>r. (row_id r, row_hostname r, created_at r)) (snd (update_ssl i patch rows))
     = map (\<lambda>r. (row_id r, row_hostname r, created_at r)) rows"
  by (simp add: update_ssl_def keys_update_status split: sum.split)

text \<open>
  C1 as stated fails: a Create for an id and hostname that already have a row, created on
  January 1st, leaves a row whose \<open>created_at\<close> is the time of the Create, January 2nd.
\<close>

theorem create_resets_created_at:
  "map_option created_at (getById ''abc''
     [\<lparr>row_id = ''abc'', row_hostname = ''example.com'', row_status = ''active'',
       created_at = ''2025-01-01 00:00:00'', updated_at = ''2025-01-01 00:00:00''\<rparr>])
     = Some ''2025-01-01 00:00:00''
   \<and> map_option created_at (getById ''abc''
     (fst (snd (create_ssl ''2025-01-02 00:00:00'' (Some ''example.com'')
        (Inr \<lparr>cf_id = ''abc'', cf_hostname = ''example.com'', cf_status = ''pending''\<rparr>)
        [\<lparr>row_id = ''abc'', row_hostname = ''example.com'', row_status = ''active'',
          created_at = ''2025-01-01 00:00:00'', updated_at = ''2025-01-01 00:00:00''\<rparr>]))))
     = Some ''2025-01-02 00:00:00''
   \<and> map_option created_at (getById ''abc''
     (fst (snd (create_ssl ''2025-01-02 00:00:00'' (Some ''example.com'')
        (Inr \<lparr>cf_id = ''abc'', cf_hostname = ''example.com'', cf_status = ''pending''\<rparr>)
        [\<lparr>row_id = ''abc'', row_hostname = ''example.com'', row_status = ''active'',
          created_at = ''2025-01-01 00:00:00'', updated_at = ''2025-01-01 00:00:00''\<rparr>]))))
     \<noteq> map_option created_at (getById ''abc''
     [\<lparr>row_id = ''abc'', row_hostname = ''example.com'', row_status = ''active'',
       created_at = ''2025-01-01 00:00:00'', updated_at = ''2025-01-01 00:00:00''\<rparr>])"
  by (simp add: create_ssl_def insert_or_replace_def getById_def)

text \<open>
  C1 as amended. Every accepted Create sets \<open>created_at\<close> of the row it writes to the
  time of that Create, whether or not a row of the same id or hostname was there (such a
  row is replaced). The detached task, Recheck and UpdateSettings leave the rows, their
  ids and hostnames and every \<open>created_at\<close> as they were.
\<close>

theorem created_at_written_by_create_only:
  "(hostname \<noteq> None \<and> hostname \<noteq> Some [] \<longrightarrow>
      map_option created_at
        (getById (cf_id ssl) (fst (snd (create_ssl now hostname (Inr ssl) rows)))) = Some now)
   \<and> map (\<lambda>r. (row_id r, row_hostname r, created_at r)) (background now get i rows)
       = map (\<lambda>r. (row_id r, row_hostname r, created_at r)) rows
   \<and> map (\<lambda>r. (row_id r, row_hostname r, created_at r)) (snd (recheck_ssl now get h rows))
       = map (\<lambda>r. (row_id r, row_hostname r, created_at r)) rows
   \<and> map (\<lambda>r. (row_id r, row_hostname r, created_at r)) (snd (update_ssl i patch rows))
       = map (\<lambda>r. (row_id r, row_hostname r, created_at r)) rows"
  by (simp add: keys_background keys_recheck_ssl keys_update_ssl
      create_ssl_def getById_insert_or_replace)

text \<open>
  The amended C1 on a row created on January 1st: a Create on January 2nd gives it that
  day as \<open>created_at\<close>; the detached task's write on January 3rd keeps January 1st.
\<close>

theorem created_at_written_by_create_only_witness:
  "map_option created_at (getById ''abc''
     (fst (snd (create_ssl ''2025-01-02 00:00:00'' (Some ''example.com'')
        (Inr \<lparr>cf_id = ''abc'', cf_hostname = ''example.com'', cf_status = ''pending''\<rparr>)
        [\<lparr>row_id = ''abc'', row_hostname = ''example.com'', row_status = ''active'',
          created_at = ''2025-01-01 00:00:00'', updated_at = ''2025-01-01 00:00:00''\<rparr>]))))
     = Some ''2025-01-02 00:00:00''
   \<and> map (\<lambda>r. (row_id r, row_hostname r, created_at r))
       (background ''2025-01-03 00:00:00''
          (\<lambda>i k. Inr \<lparr>cf_id = i, cf_hostname = ''example.com'', cf_status = ''active''\<rparr>) ''abc''
          [\<lparr>row_id = ''abc'', row_hostname = ''example.com'', row_status = ''pending'',
            created_at = ''2025-01-01 00:00:00'', updated_at = ''2025-01-01 00:00:00''\<rparr>])
     = [(''abc'', ''example.com'', ''2025-01-01 00:00:00'')]"
  using created_at_written_by_create_only [of "Some ''example.com''"
      "\<lparr>cf_id = ''abc'', cf_hostname = ''example.com'', cf_status = ''pending''\<rparr>"
      "''2025-01-02 00:00:00''"
      "[\<lparr>row_id = ''abc'', row_hostname = ''example.com'', row_status = ''active'',
          created_at = ''2025-01-01 00:00:00'', updated_at = ''2025-01-01 00:00:00''\<rparr>]"]
    created_at_written_by_create_only [of "Some ''example.com''"
      "\<lparr>cf_id = ''abc'', cf_hostname = ''example.com'', cf_status = ''pending''\<rparr>"
      "''2025-01-03 00:00:00''"
      "[\<lparr>row_id = ''abc'', row_hostname = ''example.com'', row_status = ''pending'',
            created_at = ''2025-01-01 00:00:00'', updated_at = ''2025-01-01 00:00:00''\<rparr>]"
      "\<lambda>i k. Inr \<lparr>cf_id = i, cf_hostname = ''example.com'', cf_status = ''active''\<rparr>" "''abc''"]
  by simp

text \<open>
  The writes that name \<open>updated_at\<close>: the INSERT OR REPLACE of Create and the UPDATE of
  the detached task and of Recheck leave the time of the write in the row they write.
\<close>

lemma getById_row_id: "getById i rows = Some r \<Longrightarrow> row_id r = i"
  by (auto simp: getById_def find_Some_iff)

lemma touching_writes_refresh_updated_at:
  "map_option updated_at (getById i (insert_or_replace now i h st rows)) = Some now"
  "getById i rows = Some r \<Longrightarrow>
     map_option updated_at (getById i (update_status_touch now st i rows)) = Some now"
  by (simp_all add: getById_insert_or_replace getById_update_status_touch getById_row_id)

text \<open>
  C2 fails on UpdateSettings: its UPDATE sets \<open>status\<close> only. A row last written on
  January 1st still carries that day as \<open>updated_at\<close> after the handler has written the
  status "active" into it.
\<close>

theorem update_ssl_keeps_updated_at:
  "update_ssl ''abc''
     (Inr \<lparr>cf_id = ''abc'', cf_hostname = ''example.com'', cf_status = ''active''\<rparr>)
     [\<lparr>row_id = ''abc'', row_hostname = ''example.com'', row_status = ''pending'',
       created_at = ''2025-01-01 00:00:00'', updated_at = ''2025-01-01 00:00:00''\<rparr>]
   = (Response 200 (Success (Remote
        \<lparr>cf_id = ''abc'', cf_hostname = ''example.com'', cf_status = ''active''\<rparr>)),
      [\<lparr>row_id = ''abc'', row_hostname = ''example.com'', row_status = ''active'',
        created_at = ''2025-01-01 00:00:00'', updated_at = ''2025-01-01 00:00:00''\<rparr>])"
  by (simp add: update_ssl_def update_status_def)

section \<open>Delete racing with the detached task\<close>

text \<open>
  C5 as stated fails: Create, then Delete while the detached task is still polling, then
  the task's write. The row is absent after the Delete and absent after the write.
\<close>

theorem background_after_delete_absent:
  "getById ''abc''
     (run [(''2025-01-01 00:00:00'', Create (Some ''example.com'')
              (Inr \<lparr>cf_id = ''abc'', cf_hostname = ''example.com'', cf_status = ''pending''\<rparr>)),
           (''2025-01-01 00:00:30'', Delete ''abc'' (Inr ''deleted'')),
           (''2025-01-01 00:01:00'', Background
              (\<lambda>i k. Inr \<lparr>cf_id = i, cf_hostname = ''example.com'', cf_status = ''active''\<rparr>)
              ''abc'')] [])
   = None
   \<and> run [(''2025-01-01 00:00:00'', Create (Some ''example.com'')
              (Inr \<lparr>cf_id = ''abc'', cf_hostname = ''example.com'', cf_status = ''pending''\<rparr>)),
           (''2025-01-01 00:00:30'', Delete ''abc'' (Inr ''deleted'')),
           (''2025-01-01 00:01:00'', Background
              (\<lambda>i k. Inr \<lparr>cf_id = i, cf_hostname = ''example.com'', cf_status = ''active''\<rparr>)
              ''abc'')] []
   = []"
  by (simp add: run_def create_ssl_def insert_or_replace_def delete_ssl_def deleteById_def
      background_def update_status_touch_def getById_def split: sum.split option.split)

text \<open>
  C5 as amended. The detached task's write is an UPDATE: it leaves the table with the
  same rows under the same ids, so it creates none. After a Delete of the id that the
  authority did not reject, the task's write for that id finds no row and the record
  stays absent.
\<close>

theorem background_cannot_resurrect:
  "map row_id (background now get i rows) = map row_id rows
   \<and> length (background now get i rows) = length rows
   \<and> getById i (background now get i (snd (delete_ssl i (Inr result) rows))) = None"
proof -
  have ids: "map row_id (background now get j xs) = map row_id xs" for j xs
    using keys_background [of now get j xs, THEN arg_cong, of "map fst"]
    by (simp add: comp_def)
  have "getById i (background now get i (deleteById i rows)) = None"
    by (simp add: background_def getById_update_status_touch getById_deleteById
        split: sum.split option.split)
  moreover have "length (background now get i rows) = length rows"
    by (simp add: background_def update_status_touch_def split: sum.split option.split)
  ultimately show ?thesis
    using ids [of i rows] by (simp add: delete_ssl_def)
qed

section \<open>One row per hostname\<close>

lemma db_ok_insert_or_replace: "db_ok rows \<Longrightarrow> db_ok (insert_or_replace now i h st rows)"
  by (auto simp: db_ok_def insert_or_replace_def distinct_map_filter)

lemma db_ok_update_status_touch: "db_ok rows \<Longrightarrow> db_ok (update_status_touch now st i rows)"
proof -
  have "map row_id (update_status_touch now st i rows) = map row_id rows"
    and "map row_hostname (update_status_touch now st i rows) = map row_hostname rows"
    by (simp_all add: update_status_touch_def)
  then show "db_ok rows \<Longrightarrow> db_ok (update_status_touch now st i rows)"
    by (simp add: db_ok_def)
qed

lemma db_ok_update_status: "db_ok rows \<Longrightarrow> db_ok (update_status st i rows)"
proof -
  have "map row_id (update_status st i rows) = map row_id rows"
    and "map row_hostname (update_status st i rows) = map row_hostname rows"
    by (simp_all add: update_status_def)
  then show "db_ok rows \<Longrightarrow> db_ok (update_status st i rows)"
    by (simp add: db_ok_def)
qed

lemma db_ok_deleteById: "db_ok rows \<Longrightarrow> db_ok (deleteById i rows)"
  by (simp add: db_ok_def deleteById_def distinct_map_filter)

lemma db_ok_step: "db_ok rows \<Longrightarrow> db_ok (step e rows)"
proof (cases e)
  case (Pair now ev)
  assume ok: "db_ok rows"
  show ?thesis
  proof (cases ev)
    case (Create hostname post)
    with Pair ok show ?thesis
      by (simp add: create_ssl_def db_ok_insert_or_replace split: sum.split)
  next
    case (Background get i)
    with Pair ok show ?thesis
      by (simp add: background_def db_ok_update_status_touch split: sum.split option.split)
  next
    case (Read hostname lookup)
    with Pair ok show ?thesis
      by (simp add: read_ssl_def split: sum.split option.split list.split)
  next
    case (Recheck get hostname)
    with Pair ok show ?thesis
      by (simp add: recheck_ssl_def db_ok_update_status_touch split: sum.split option.split)
  next
    case (Update i patch)
    with Pair ok show ?thesis
      by (simp add: update_ssl_def db_ok_update_status split: sum.split)
  next
    case (Delete i del)
    with Pair ok show ?thesis
      by (simp add: delete_ssl_def db_ok_deleteById split: sum.split)
  next
    case ListAll
    with Pair ok show ?thesis by (simp add: list_ssl_def)
  qed
qed

lemma run_snoc: "run (events @ [e]) rows = step e (run events rows)"
  by (simp add: run_def)

lemma db_ok_run: "db_ok rows \<Longrightarrow> db_ok (run events rows)"
  by (induction events rule: rev_induct) (simp_all add: run_def db_ok_step)

lemma unique_hostname_at_most_one:
  "distinct (map row_hostname rows) \<Longrightarrow> length (filter (\<lambda>r. row_hostname r = h) rows) \<le> 1"
proof (induction rows)
  case Nil
  then show ?case by simp
next
  case (Cons a rows)
  show ?case
  proof (cases "row_hostname a = h")
    case True
    with Cons.prems have "\<forall>r\<in>set rows. row_hostname r \<noteq> h" by (auto simp: image_iff)
    then have "filter (\<lambda>r. row_hostname r = h) rows = []" by (simp add: filter_empty_conv)
    with True show ?thesis by simp
  next
    case False
    with Cons show ?thesis by simp
  qed
qed

lemma accepted_create_leaves_one:
  assumes "created h ev"
  shows "\<exists>r. filter (\<lambda>r. row_hostname r = h) (step (now, ev) rows) = [r]"
proof (cases ev)
  case (Create hostname post)
  with assms obtain ssl where post: "post = Inr ssl" and h: "cf_hostname ssl = h"
    and valid: "hostname = Some h" "h \<noteq> []"
    by (cases post) auto
  have "filter (\<lambda>r. row_hostname r = h)
          (filter (\<lambda>r. row_id r \<noteq> cf_id ssl \<and> row_hostname r \<noteq> h) rows) = []"
    by (simp add: filter_empty_conv)
  then show ?thesis
    using Create post h valid by (simp add: create_ssl_def insert_or_replace_def)
qed (use assms in simp_all)

lemma other_activity_keeps_one:
  assumes "create_activity h ev" and "\<not> created h ev"
    and "filter (\<lambda>r. row_hostname r = h) rows = [r]"
  shows "\<exists>r'. filter (\<lambda>r. row_hostname r = h) (step (now, ev) rows) = [r']"
proof (cases ev)
  case (Create hostname post)
  with assms(1,2) have "step (now, ev) rows = rows"
    by (cases post) (auto simp: create_ssl_def)
  with assms(3) show ?thesis by simp
next
  case (Background get i)
  have "filter (\<lambda>r. row_hostname r = h) (update_status_touch now st i rows)
          = update_status_touch now st i (filter (\<lambda>r. row_hostname r = h) rows)" for st
    by (simp add: update_status_touch_def filter_map comp_def cong: if_cong)
  with assms(3) have "\<exists>r'. filter (\<lambda>r. row_hostname r = h) (update_status_touch now st i rows) = [r']" for st
    by (simp add: update_status_touch_def)
  with assms(3) Background show ?thesis
    by (simp add: background_def split: sum.split option.split)
qed (use assms in simp_all)

lemma creates_leave_one:
  assumes "\<forall>e\<in>set events. create_activity h (snd e)" and "\<exists>e\<in>set events. created h (snd e)"
  shows "\<exists>r. filter (\<lambda>r. row_hostname r = h) (run events rows) = [r]"
  using assms
proof (induction events rule: rev_induct)
  case Nil
  then show ?case by simp
next
  case (snoc e events)
  obtain now ev where e: "e = (now, ev)" by (cases e)
  show ?case
  proof (cases "created h ev")
    case True
    then show ?thesis using e by (simp add: run_snoc accepted_create_leaves_one)
  next
    case False
    with snoc.prems e have "\<exists>e\<in>set events. created h (snd e)" by auto
    moreover from snoc.prems have "\<forall>e\<in>set events. create_activity h (snd e)" by simp
    ultimately obtain r where "filter (\<lambda>r. row_hostname r = h) (run events rows) = [r]"
      using snoc.IH by blast
    moreover from snoc.prems e have "create_activity h ev" by simp
    ultimately show ?thesis
      using False e by (simp add: run_snoc other_activity_keeps_one)
  qed
qed

text \<open>
  C9 as stated fails in its second half: the row is stored under the hostname of the
  authority's record, not under the hostname asked for. Two accepted Creates of
  \<^verbatim>\<open>Example.COM\<close>, which the authority answers with records of \<^verbatim>\<open>example.com\<close>,
  leave one row, of \<^verbatim>\<open>example.com\<close>; \<open>getByHostname\<close> of \<^verbatim>\<open>Example.COM\<close> returns
  no record.
\<close>

theorem create_stores_authority_hostname:
  "getByHostname ''Example.COM''
     (run [(''2025-01-01 00:00:00'', Create (Some ''Example.COM'')
              (Inr \<lparr>cf_id = ''a1'', cf_hostname = ''example.com'', cf_status = ''pending''\<rparr>)),
           (''2025-01-01 00:00:10'', Create (Some ''Example.COM'')
              (Inr \<lparr>cf_id = ''a2'', cf_hostname = ''example.com'', cf_status = ''pending''\<rparr>))]
        [])
   = None
   \<and> run [(''2025-01-01 00:00:00'', Create (Some ''Example.COM'')
              (Inr \<lparr>cf_id = ''a1'', cf_hostname = ''example.com'', cf_status = ''pending''\<rparr>)),
           (''2025-01-01 00:00:10'', Create (Some ''Example.COM'')
              (Inr \<lparr>cf_id = ''a2'', cf_hostname = ''example.com'', cf_status = ''pending''\<rparr>))]
        []
   = [\<lparr>row_id = ''a2'', row_hostname = ''example.com'', row_status = ''pending'',
       created_at = ''2025-01-01 00:00:10'', updated_at = ''2025-01-01 00:00:10''\<rparr>]"
  by (simp add: run_def create_ssl_def insert_or_replace_def getByHostname_def)

text \<open>
  C9 as amended. Start from a table that meets its key constraints (the empty one does).
  After any prefix of any sequence of events, the table has at most one row of any
  hostname \<open>h\<close>. If the events are Create requests for \<open>h\<close> that the authority rejects or
  answers with a record whose hostname is again \<open>h\<close>, and runs of detached tasks, in any
  order, and at least one of the requests passed validation and was accepted, then at the
  end exactly one row has hostname \<open>h\<close>, and \<open>getByHostname h\<close> returns it.
\<close>

theorem one_row_per_hostname:
  assumes "db_ok rows"
  shows "(\<forall>n. length (filter (\<lambda>r. row_hostname r = h) (run (take n events) rows)) \<le> 1)
       \<and> ((\<forall>e\<in>set events. create_activity h (snd e)) \<and> (\<exists>e\<in>set events. created h (snd e))
            \<longrightarrow> (\<exists>r. filter (\<lambda>r. row_hostname r = h) (run events rows) = [r]
                   \<and> getByHostname h (run events rows) = Some r))"
proof (intro conjI allI impI)
  fix n
  have "db_ok (run (take n events) rows)" using assms by (rule db_ok_run)
  then have "distinct (map row_hostname (run (take n events) rows))"
    by (simp add: db_ok_def)
  then show "length (filter (\<lambda>r. row_hostname r = h) (run (take n events) rows)) \<le> 1"
    by (rule unique_hostname_at_most_one)
next
  assume "(\<forall>e\<in>set events. create_activity h (snd e)) \<and> (\<exists>e\<in>set events. created h (snd e))"
  then obtain r where "filter (\<lambda>r. row_hostname r = h) (run events rows) = [r]"
    using creates_leave_one by blast
  then show "\<exists>r. filter (\<lambda>r. row_hostname r = h) (run events rows) = [r]
      \<and> getByHostname h (run events rows) = Some r"
    by (simp add: getByHostname_def find_singleton_filter)
qed

text \<open>
  The amended C9 on the empty table: two accepted Creates of \<^verbatim>\<open>example.com\<close>, for
  which the authority echoed the hostname and gave the ids \<^verbatim>\<open>a1\<close> and \<^verbatim>\<open>a2\<close>,
  followed by their two detached tasks. The second Create replaces the row of the first;
  one row is left.
\<close>

theorem one_row_per_hostname_witness:
  "db_ok []
   \<and> list_all (\<lambda>e. create_activity ''example.com'' (snd e))
        [(''2025-01-01 00:00:00'', Create (Some ''example.com'')
            (Inr \<lparr>cf_id = ''a1'', cf_hostname = ''example.com'', cf_status = ''pending''\<rparr>)),
         (''2025-01-01 00:00:10'', Create (Some ''example.com'')
            (Inr \<lparr>cf_id = ''a2'', cf_hostname = ''example.com'', cf_status = ''pending''\<rparr>)),
         (''2025-01-01 00:01:00'', Background
            (\<lambda>i k. Inr \<lparr>cf_id = i, cf_hostname = ''example.com'', cf_status = ''active''\<rparr>) ''a1''),
         (''2025-01-01 00:01:10'', Background
            (\<lambda>i k. Inr \<lparr>cf_id = i, cf_hostname = ''example.com'', cf_status = ''active''\<rparr>) ''a2'')]
   \<and> created ''example.com'' (Create (Some ''example.com'')
            (Inr \<lparr>cf_id = ''a1'', cf_hostname = ''example.com'', cf_status = ''pending''\<rparr>))
   \<and> run
        [(''2025-01-01 00:00:00'', Create (Some ''example.com'')
            (Inr \<lparr>cf_id = ''a1'', cf_hostname = ''example.com'', cf_status = ''pending''\<rparr>)),
         (''2025-01-01 00:00:10'', Create (Some ''example.com'')
            (Inr \<lparr>cf_id = ''a2'', cf_hostname = ''example.com'', cf_status = ''pending''\<rparr>)),
         (''2025-01-01 00:01:00'', Background
            (\<lambda>i k. Inr \<lparr>cf_id = i, cf_hostname = ''example.com'', cf_status = ''active''\<rparr>) ''a1''),
         (''2025-01-01 00:01:10'', Background
            (\<lambda>i k. Inr \<lparr>cf_id = i, cf_hostname = ''example.com'', cf_status = ''active''\<rparr>) ''a2'')]
        []
      = [\<lparr>row_id = ''a2'', row_hostname = ''example.com'', row_status = ''active'',
          created_at = ''2025-01-01 00:00:10'', updated_at = ''2025-01-01 00:01:10''\<rparr>]
   \<and> getByHostname ''example.com''
        [\<lparr>row_id = ''a2'', row_hostname = ''example.com'', row_status = ''active'',
          created_at = ''2025-01-01 00:00:10'', updated_at = ''2025-01-01 00:01:10''\<rparr>]
      = Some \<lparr>row_id = ''a2'', row_hostname = ''example.com'', row_status = ''active'',
          created_at = ''2025-01-01 00:00:10'', updated_at = ''2025-01-01 00:01:10''\<rparr>
   \<and> length (filter (\<lambda>r. row_hostname r = ''example.com'')
        (run (take 1
        [(''2025-01-01 00:00:00'', Create (Some ''example.com'')
            (Inr \<lparr>cf_id = ''a1'', cf_hostname = ''example.com'', cf_status = ''pending''\<rparr>)),
         (''2025-01-01 00:00:10'', Create (Some ''example.com'')
            (Inr \<lparr>cf_id = ''a2'', cf_hostname = ''example.com'', cf_status = ''pending''\<rparr>)),
         (''2025-01-01 00:01:00'', Background
            (\<lambda>i k. Inr \<lparr>cf_id = i, cf_hostname = ''example.com'', cf_status = ''active''\<rparr>) ''a1''),
         (''2025-01-01 00:01:10'', Background
            (\<lambda>i k. Inr \<lparr>cf_id = i, cf_hostname = ''example.com'', cf_status = ''active''\<rparr>) ''a2'')])
        [])) \<le> 1"
proof -
  let ?get = "\<lambda>(i::string) (k::nat).
      (Inr \<lparr>cf_id = i, cf_hostname = ''example.com'', cf_status = ''active''\<rparr> :: js_error + cf_record)"
  let ?events =
    "[(''2025-01-01 00:00:00'', Create (Some ''example.com'')
        (Inr \<lparr>cf_id = ''a1'', cf_hostname = ''example.com'', cf_status = ''pending''\<rparr>)),
      (''2025-01-01 00:00:10'', Create (Some ''example.com'')
        (Inr \<lparr>cf_id = ''a2'', cf_hostname = ''example.com'', cf_status = ''pending''\<rparr>)),
      (''2025-01-01 00:01:00'', Background ?get ''a1''),
      (''2025-01-01 00:01:10'', Background ?get ''a2'')]"
  have ok: "db_ok []" by (simp add: db_ok_def)
  have poll: "fst (fetchCloudflareStatus ?get i 3)
      = Inr (Some \<lparr>cf_id = i, cf_hostname = ''example.com'', cf_status = ''active''\<rparr>)" for i
    by (simp add: fetchCloudflareStatus_def fetch_loop.simps)
  have ran: "run ?events []
      = [\<lparr>row_id = ''a2'', row_hostname = ''example.com'', row_status = ''active'',
          created_at = ''2025-01-01 00:00:10'', updated_at = ''2025-01-01 00:01:10''\<rparr>]"
    by (simp add: run_def create_ssl_def insert_or_replace_def background_def poll
        update_status_touch_def)
  have activity: "\<forall>e\<in>set ?events. create_activity ''example.com'' (snd e)"
    and accepted: "\<exists>e\<in>set ?events. created ''example.com'' (snd e)"
    by simp_all
  have prefix: "length (filter (\<lambda>r. row_hostname r = ''example.com'')
      (run (take 1 ?events) [])) \<le> 1"
    using one_row_per_hostname [OF ok, of "''example.com''" ?events, THEN conjunct1]
    by (rule spec)
  have "\<exists>r. filter (\<lambda>r. row_hostname r = ''example.com'') (run ?events []) = [r]
      \<and> getByHostname ''example.com'' (run ?events []) = Some r"
    using one_row_per_hostname [OF ok, of "''example.com''" ?events, THEN conjunct2]
      activity accepted by blast
  then have found: "getByHostname ''example.com''
        [\<lparr>row_id = ''a2'', row_hostname = ''example.com'', row_status = ''active'',
          created_at = ''2025-01-01 00:00:10'', updated_at = ''2025-01-01 00:01:10''\<rparr>]
      = Some \<lparr>row_id = ''a2'', row_hostname = ''example.com'', row_status = ''active'',
          created_at = ''2025-01-01 00:00:10'', updated_at = ''2025-01-01 00:01:10''\<rparr>"
    unfolding ran by simp
  have first: "created ''example.com'' (Create (Some ''example.com'')
      (Inr \<lparr>cf_id = ''a1'', cf_hostname = ''example.com'', cf_status = ''pending''\<rparr>))"
    by simp
  have every: "list_all (\<lambda>e. create_activity ''example.com'' (snd e)) ?events"
    using activity by (simp only: list_all_iff)
  from ok every first ran found prefix show ?thesis
    by (intro conjI)
qed

end
